theory Spec2Isabelle
  imports Complex_Main
begin

section \<open>Strings and characters\<close>

text \<open>
  A JavaScript string is modelled as a \<open>string\<close> (a list of 8-bit characters, read as
  Latin-1 code units). The character classes below are the ones the two regular
  expressions of \<open>ZoltraCLIParser\<close> and the built-ins \<open>trim\<close>, \<open>toLowerCase\<close> and
  \<open>parseFloat\<close> use.
\<close>

definition lowerAlpha :: string where
  "lowerAlpha = ''abcdefghijklmnopqrstuvwxyz''"

definition upperAlpha :: string where
  "upperAlpha = ''ABCDEFGHIJKLMNOPQRSTUVWXYZ''"

definition isAlpha :: "char \<Rightarrow> bool" where
  "isAlpha c = (c \<in> set lowerAlpha \<or> c \<in> set upperAlpha)"

definition isDigit :: "char \<Rightarrow> bool" where
  "isDigit c = (c \<in> set ''0123456789'')"

text \<open>The class \<open>[a-zA-Z0-9_-]\<close> of \<open>OPTION_REGEX\<close>.\<close>

definition isNameChar :: "char \<Rightarrow> bool" where
  "isNameChar c = (isAlpha c \<or> isDigit c \<or> c = CHR ''_'' \<or> c = CHR ''-'')"

text \<open>The class \<open>[a-zA-Z0-9]\<close> of \<open>SHORT_OPTION_REGEX\<close>.\<close>

definition isAlnum :: "char \<Rightarrow> bool" where
  "isAlnum c = (isAlpha c \<or> isDigit c)"

text \<open>The regular expression atom \<open>.\<close> matches every character but a line terminator.\<close>

definition isLineTerminator :: "char \<Rightarrow> bool" where
  "isLineTerminator c = (c = CHR 0x0A \<or> c = CHR 0x0D)"

text \<open>White space as \<open>String.prototype.trim\<close> and \<open>parseFloat\<close> strip it.\<close>

definition isWhiteSpace :: "char \<Rightarrow> bool" where
  "isWhiteSpace c = (c \<in> set [CHR 0x09, CHR 0x0A, CHR 0x0B, CHR 0x0C, CHR 0x0D, CHR 0x20, CHR 0xA0])"

definition trim :: "string \<Rightarrow> string" where
  "trim s = rev (dropWhile isWhiteSpace (rev (dropWhile isWhiteSpace s)))"

definition toLowerChar :: "char \<Rightarrow> char" where
  "toLowerChar c = (case map_of (zip upperAlpha lowerAlpha) c of Some l \<Rightarrow> l | None \<Rightarrow> c)"

definition toLowerCase :: "string \<Rightarrow> string" where
  "toLowerCase s = map toLowerChar s"

text \<open>\<open>value.split(",")\<close>: the empty string splits into one empty segment.\<close>

fun split_comma :: "string \<Rightarrow> string list" where
  "split_comma [] = [[]]"
| "split_comma (c # cs) =
     (if c = CHR '','' then [] # split_comma cs
      else (case split_comma cs of [] \<Rightarrow> [[c]] | x # xs \<Rightarrow> (c # x) # xs))"

text \<open>The decimal rendering of \<open>options.length\<close> inside a template literal.\<close>

definition digitChar :: "nat \<Rightarrow> char" where
  "digitChar d = ''0123456789'' ! d"

fun decimal :: "nat \<Rightarrow> string" where
  "decimal n = (if n < 10 then [digitChar n] else decimal (n div 10) @ [digitChar (n mod 10)])"

definition digitValue :: "char \<Rightarrow> nat" where
  "digitValue c = (case map_of (zip ''0123456789'' [0, 1, 2, 3, 4, 5, 6, 7, 8, 9]) c of
                     Some d \<Rightarrow> d | None \<Rightarrow> 0)"

definition digitsValue :: "string \<Rightarrow> nat" where
  "digitsValue ds = foldl (\<lambda>a c. 10 * a + digitValue c) 0 ds"

section \<open>Numbers: \<open>parseFloat\<close>\<close>

text \<open>
  A JavaScript number is \<open>NaN\<close>, an infinity or a finite value. The finite value is kept
  as the exact mathematical value of the decimal literal; its rounding to binary64 is not
  part of the model.
\<close>

datatype jsnum = NaN | PosInfinity | NegInfinity | Num rat

definition isNaN :: "jsnum \<Rightarrow> bool" where
  "isNaN n = (n = NaN)"

text \<open>The optional sign of a \<open>StrDecimalLiteral\<close>: whether it is negative, and the rest.\<close>

definition stripSign :: "string \<Rightarrow> bool \<times> string" where
  "stripSign s =
     (case s of
        [] \<Rightarrow> (False, s)
      | c # r \<Rightarrow> if c = CHR ''-'' then (True, r) else if c = CHR ''+'' then (False, r) else (False, s))"

text \<open>The fraction digits after a decimal point, and what follows them.\<close>

definition fractionPart :: "string \<Rightarrow> string \<times> string" where
  "fractionPart r =
     (case r of
        [] \<Rightarrow> ([], r)
      | c # r' \<Rightarrow> if c = CHR ''.'' then (takeWhile isDigit r', dropWhile isDigit r') else ([], r))"

text \<open>The \<open>ExponentPart\<close>, when one follows the mantissa; \<open>0\<close> otherwise.\<close>

definition exponentPart :: "string \<Rightarrow> int" where
  "exponentPart r =
     (case r of
        [] \<Rightarrow> 0
      | e # r' \<Rightarrow>
          if e = CHR ''e'' \<or> e = CHR ''E'' then
            (let (neg, ds) = stripSign r'; ex = takeWhile isDigit ds
             in if ex = [] then 0
                else if neg then - int (digitsValue ex) else int (digitsValue ex))
          else 0)"

definition scale10 :: "rat \<Rightarrow> int \<Rightarrow> rat" where
  "scale10 m e = (if 0 \<le> e then m * 10 ^ nat e else m / 10 ^ nat (- e))"

text \<open>
  \<open>parseFloat\<close> (ECMAScript 19.2.4): skip leading white space, then read the longest
  prefix that is a \<open>StrDecimalLiteral\<close>; when no prefix is one, the result is \<open>NaN\<close>.
  Whatever follows the literal is ignored.
\<close>

definition parseFloat :: "string \<Rightarrow> jsnum" where
  "parseFloat inputString =
     (let trimmedString = dropWhile isWhiteSpace inputString;
          (neg, u) = stripSign trimmedString
      in if take 8 u = ''Infinity'' then (if neg then NegInfinity else PosInfinity)
         else
           (let ip = takeWhile isDigit u;
                (fp, r) = fractionPart (dropWhile isDigit u)
            in if ip = [] \<and> fp = [] then NaN
               else
                 (let m = of_nat (digitsValue ip) + of_nat (digitsValue fp) / 10 ^ length fp;
                      v = scale10 m (exponentPart r)
                  in Num (if neg then - v else v))))"

section \<open>Data model: the interfaces \<open>CLIOption\<close>, \<open>CLIArgument\<close>, \<open>ParsedArgs\<close>\<close>

text \<open>\<open>type: "string" | "number" | "boolean" | "array"\<close>\<close>

datatype optkind = TString | TNumber | TBoolean | TArray

text \<open>
  The values an option is bound to: a string, a number, a boolean or an array of strings
  (\<open>default?: any\<close> is read at these four kinds).
\<close>

datatype jsval = VStr string | VNum jsnum | VBool bool | VArr "string list"

text \<open>
  \<open>interface CLIOption\<close>. An optional field is an \<open>option\<close>; \<open>required?: boolean\<close> is only
  ever tested for truthiness, so \<open>undefined\<close> is \<open>False\<close>.
\<close>

record CLIOption =
  opt_name :: string
  opt_alias :: "string option"
  opt_description :: string
  opt_type :: optkind
  opt_required :: bool
  opt_default :: "jsval option"
  opt_choices :: "string list option"

text \<open>\<open>interface CLIArgument\<close>\<close>

record CLIArgument =
  arg_name :: string
  arg_description :: string
  arg_required :: bool
  arg_variadic :: bool

text \<open>
  \<open>interface ParsedArgs\<close>. \<open>options: Record<string, any>\<close> is the finite map of the
  object's own properties: a read \<open>parsed.options[name]\<close> is \<open>undefined\<close> exactly when the
  name is unbound. Names that a JavaScript object inherits from \<open>Object.prototype\<close> (such
  as \<open>constructor\<close>) are outside the model.
\<close>

record ParsedArgs =
  command :: "string list"
  options :: "string \<rightharpoonup> jsval"
  args :: "string list"

text \<open>
  Every \<open>throw new Error(...)\<close> of the source, with the values its message is built from.
  In the specification's taxonomy: FormatError, TypeError, ChoiceError,
  MissingArgumentError, MissingOptionError and UnknownCommandError, in this order.
\<close>

datatype error =
    InvalidOptionFormat string
  | ExpectsNumber string string
  | MustBeOneOf string "string list"
  | MissingRequiredArgument string
  | MissingRequiredOption string "string option"
  | UnknownCommand string

fun join :: "string \<Rightarrow> string list \<Rightarrow> string" where
  "join sep [] = []"
| "join sep [x] = x"
| "join sep (x # y # ys) = x @ sep @ join sep (y # ys)"

fun message :: "error \<Rightarrow> string" where
  "message (InvalidOptionFormat token) = ''Invalid option format: '' @ token"
| "message (ExpectsNumber name v) = ''Option '' @ name @ '' expects a number, got: '' @ v"
| "message (MustBeOneOf name cs) = ''Option '' @ name @ '' must be one of: '' @ join '', '' cs"
| "message (MissingRequiredArgument name) = ''Missing required argument: '' @ name"
| "message (MissingRequiredOption name a) =
     ''Missing required option: --'' @ name @
       (case a of None \<Rightarrow> [] | Some al \<Rightarrow> if al = [] then [] else '' (-'' @ al @ '')'')"
| "message (UnknownCommand name) = ''Unknown command: '' @ name"

section \<open>The parser: class \<open>ZoltraCLIParser\<close>\<close>

subsection \<open>The two regular expressions\<close>

text \<open>
  \<open>OPTION_REGEX = /^--?([a-zA-Z][a-zA-Z0-9_-]*)(?:=(.+))?$/\<close>. A match gives the two
  capture groups: the name, and the value when the \<open>=value\<close> suffix is there. The
  expression has one way to match at most: after the dashes of \<open>--?\<close> (\<open>afterDashes\<close>, the
  second dash taken whenever it is there, since a name cannot start with one), the name is
  the longest run of name characters (\<open>=\<close> is not one), and what is left is empty or \<open>=\<close>
  with one character or more, none a line terminator (\<open>matchNameValue\<close>).
\<close>

definition afterDashes :: "string \<Rightarrow> string option" where
  "afterDashes token =
     (case token of
        [] \<Rightarrow> None
      | d # r \<Rightarrow>
          if d \<noteq> CHR ''-'' then None
          else Some (case r of [] \<Rightarrow> r | d2 # r2 \<Rightarrow> if d2 = CHR ''-'' then r2 else r))"

definition matchNameValue :: "string \<Rightarrow> (string \<times> string option) option" where
  "matchNameValue r =
     (case r of
        [] \<Rightarrow> None
      | l # r' \<Rightarrow>
          if \<not> isAlpha l then None
          else
            (let name = takeWhile isNameChar r; rest = dropWhile isNameChar r
             in case rest of
                  [] \<Rightarrow> Some (name, None)
                | e # v \<Rightarrow>
                    if e = CHR ''='' \<and> v \<noteq> [] \<and> list_all (\<lambda>c. \<not> isLineTerminator c) v
                    then Some (name, Some v)
                    else None))"

definition matchOPTION_REGEX :: "string \<Rightarrow> (string \<times> string option) option" where
  "matchOPTION_REGEX token =
     (case afterDashes token of None \<Rightarrow> None | Some r \<Rightarrow> matchNameValue r)"

text \<open>\<open>SHORT_OPTION_REGEX = /^-([a-zA-Z0-9]+)$/\<close>\<close>

definition matchSHORT_OPTION_REGEX :: "string \<Rightarrow> string option" where
  "matchSHORT_OPTION_REGEX token =
     (case token of
        [] \<Rightarrow> None
      | d # r \<Rightarrow> if d = CHR ''-'' \<and> r \<noteq> [] \<and> list_all isAlnum r then Some r else None)"

definition isOption :: "string \<Rightarrow> bool" where
  "isOption token = (matchOPTION_REGEX token \<noteq> None)"

subsection \<open>parseOption\<close>

text \<open>A raw option value, \<open>string | boolean\<close>.\<close>

datatype rawvalue = RBool bool | RStr string

text \<open>\<open>tokens[i]\<close>, \<open>undefined\<close> past the end.\<close>

definition tokenAt :: "string list \<Rightarrow> nat \<Rightarrow> string option" where
  "tokenAt tokens i = (if i < length tokens then Some (tokens ! i) else None)"

text \<open>\<open>nextToken && !this.isOption(nextToken) ? nextToken : true\<close>\<close>

definition valueOrTrue :: "string option \<Rightarrow> rawvalue" where
  "valueOrTrue nextToken =
     (case nextToken of
        None \<Rightarrow> RBool True
      | Some t \<Rightarrow> if t \<noteq> [] \<and> \<not> isOption t then RStr t else RBool True)"

definition parseOption :: "string \<Rightarrow> string list \<Rightarrow> nat \<Rightarrow> error + (string \<times> rawvalue)" where
  "parseOption token tokens index =
     (case matchOPTION_REGEX token of
        Some (name, value) \<Rightarrow>
          if name = [] then Inl (InvalidOptionFormat token)
          else
            (case value of
               Some v \<Rightarrow> Inr (name, RStr v)
             | None \<Rightarrow> Inr (name, valueOrTrue (tokenAt tokens (index + 1))))
      | None \<Rightarrow>
          (case matchSHORT_OPTION_REGEX token of
             Some name \<Rightarrow>
               if name = [] then Inl (InvalidOptionFormat token)
               else Inr (name, valueOrTrue (tokenAt tokens (index + 1)))
           | None \<Rightarrow> Inl (InvalidOptionFormat token)))"

subsection \<open>parseOptionValue\<close>

definition parseOptionValue :: "rawvalue \<Rightarrow> CLIOption \<Rightarrow> error + jsval" where
  "parseOptionValue value opt =
     (case value of
        RBool b \<Rightarrow> Inr (VBool b)
      | RStr s \<Rightarrow>
          (case opt_type opt of
             TNumber \<Rightarrow>
               (let num = parseFloat s
                in if isNaN num then Inl (ExpectsNumber (opt_name opt) s) else Inr (VNum num))
           | TBoolean \<Rightarrow> Inr (VBool (toLowerCase s = ''true'' \<or> s = ''1''))
           | TArray \<Rightarrow> Inr (VArr (map trim (split_comma s)))
           | TString \<Rightarrow>
               (case opt_choices opt of
                  None \<Rightarrow> Inr (VStr s)
                | Some cs \<Rightarrow>
                    if s \<notin> set cs then Inl (MustBeOneOf (opt_name opt) cs) else Inr (VStr s))))"

subsection \<open>The option cache\<close>

text \<open>
  \<open>optionCache = new Map<string, CLIOption | null>()\<close>: a key is absent (\<open>None\<close>), bound to
  \<open>null\<close> (\<open>Some None\<close>) or bound to an option.
\<close>

type_synonym cache = "string \<rightharpoonup> CLIOption option"


text \<open>
  \<open>let option = this.optionCache.get(cacheKey); if (option === undefined) { option = found;
  this.optionCache.set(cacheKey, option); }\<close>, where \<open>found\<close> is \<open>options.find(...) || null\<close>.
\<close>

definition cachedFind :: "cache \<Rightarrow> string \<Rightarrow> CLIOption option \<Rightarrow> CLIOption option \<times> cache" where
  "cachedFind c cacheKey found =
     (case c cacheKey of
        None \<Rightarrow> (found, c(cacheKey \<mapsto> found))
      | Some option \<Rightarrow> (option, c))"

definition nameKey :: "string \<Rightarrow> nat \<Rightarrow> string" where
  "nameKey name n = name @ '':'' @ decimal n"

definition aliasKey :: "char \<Rightarrow> nat \<Rightarrow> string" where
  "aliasKey shortOpt n = ''alias:'' @ [shortOpt] @ '':'' @ decimal n"

definition findByNameOrAlias :: "CLIOption list \<Rightarrow> string \<Rightarrow> CLIOption option" where
  "findByNameOrAlias opts name =
     find (\<lambda>opt. opt_name opt = name \<or> opt_alias opt = Some name) opts"

definition findByAlias :: "CLIOption list \<Rightarrow> char \<Rightarrow> CLIOption option" where
  "findByAlias opts shortOpt = find (\<lambda>opt. opt_alias opt = Some [shortOpt]) opts"

subsection \<open>parse\<close>

definition rawToValue :: "rawvalue \<Rightarrow> jsval" where
  "rawToValue v = (case v of RBool b \<Rightarrow> VBool b | RStr s \<Rightarrow> VStr s)"

text \<open>
  The inner loop \<open>for (const shortOpt of shortOpts)\<close> of the cluster branch, over the
  options object and the cache.
\<close>

fun shortOptsLoop ::
  "string \<Rightarrow> CLIOption list \<Rightarrow> string option \<Rightarrow> (string \<rightharpoonup> jsval) \<Rightarrow> cache
     \<Rightarrow> (string \<rightharpoonup> jsval) \<times> cache" where
  "shortOptsLoop [] opts nextToken os c = (os, c)"
| "shortOptsLoop (shortOpt # rest) opts nextToken os c =
     (let (option, c') = cachedFind c (aliasKey shortOpt (length opts)) (findByAlias opts shortOpt)
      in case option of
           None \<Rightarrow> shortOptsLoop rest opts nextToken os c'
         | Some opt \<Rightarrow>
             shortOptsLoop rest opts nextToken
               (os(opt_name opt \<mapsto>
                  (if opt_type opt = TBoolean then VBool True
                   else rawToValue (valueOrTrue nextToken))))
               c')"

text \<open>
  One iteration of \<open>while (i < tokens.length)\<close>, for \<open>i\<close> inside the token list: the next
  cursor and the updated result, or the error thrown; and the cache, which keeps the
  entries written before a throw.
\<close>

definition parseStep ::
  "string list \<Rightarrow> CLIOption list \<Rightarrow> nat \<Rightarrow> ParsedArgs \<Rightarrow> cache
     \<Rightarrow> (error + nat \<times> ParsedArgs) \<times> cache" where
  "parseStep tokens opts i parsed c =
     (let token = tokens ! i
      in if token = [] then (Inr (i + 1, parsed), c)
         else if isOption token then
           (case parseOption token tokens i of
              Inl e \<Rightarrow> (Inl e, c)
            | Inr (name, value) \<Rightarrow>
                (let (option, c') =
                       cachedFind c (nameKey name (length opts)) (findByNameOrAlias opts name)
                 in case option of
                      None \<Rightarrow> (Inr (i + 1, parsed), c')
                    | Some opt \<Rightarrow>
                        (case parseOptionValue value opt of
                           Inl e \<Rightarrow> (Inl e, c')
                         | Inr v \<Rightarrow>
                             (Inr (i + 1,
                                   parsed\<lparr>options := (options parsed)(opt_name opt \<mapsto> v)\<rparr>),
                              c'))))
         else if hd token = CHR ''-'' then
           (let shortOpts = tl token;
                (os, c') = shortOptsLoop shortOpts opts (tokenAt tokens (i + 1)) (options parsed) c
            in (Inr (i + (if length shortOpts > 1 then 1 else 2), parsed\<lparr>options := os\<rparr>), c'))
         else if command parsed = [] \<and> args parsed = [] then
           (Inr (i + 1, parsed\<lparr>command := command parsed @ [token]\<rparr>), c)
         else (Inr (i + 1, parsed\<lparr>args := args parsed @ [token]\<rparr>), c))"

lemma parseStep_advances:
  "parseStep tokens opts i parsed c = (Inr (i', parsed'), c') \<Longrightarrow> i < i'"
  by (auto simp: parseStep_def Let_def split: if_splits sum.splits prod.splits option.splits)

function parseLoop ::
  "string list \<Rightarrow> CLIOption list \<Rightarrow> nat \<Rightarrow> ParsedArgs \<Rightarrow> cache \<Rightarrow> (error + ParsedArgs) \<times> cache" where
  "parseLoop tokens opts i parsed c =
     (if i < length tokens then
        (case parseStep tokens opts i parsed c of
           (Inl e, c') \<Rightarrow> (Inl e, c')
         | (Inr (i', parsed'), c') \<Rightarrow> parseLoop tokens opts i' parsed' c')
      else (Inr parsed, c))"
  by pat_completeness auto
termination
  by (relation "measure (\<lambda>(tokens, opts, i, parsed, c). length tokens - i)")
     (auto dest: parseStep_advances [OF sym] intro: diff_less_mono2)

declare parseLoop.simps [simp del]

text \<open>The defaults loop: \<open>if (option.default !== undefined) parsed.options[option.name] = option.default\<close>.\<close>

definition seedDefaults :: "CLIOption list \<Rightarrow> (string \<rightharpoonup> jsval)" where
  "seedDefaults opts =
     fold (\<lambda>option os. case opt_default option of None \<Rightarrow> os | Some d \<Rightarrow> os(opt_name option \<mapsto> d))
       opts Map.empty"

text \<open>
  \<open>ZoltraCLIParser.parse(argv, options, args)\<close>, with the static cache passed in and
  returned. The parameter \<open>args\<close> is not read by the body.
\<close>

definition parse ::
  "string list \<Rightarrow> CLIOption list \<Rightarrow> CLIArgument list \<Rightarrow> cache \<Rightarrow> (error + ParsedArgs) \<times> cache" where
  "parse argv opts argspecs c =
     (let tokens = drop 2 argv;
          parsed = \<lparr>command = [], options = seedDefaults opts, args = []\<rparr>
      in parseLoop tokens opts 0 parsed c)"

subsection \<open>validateArgs\<close>

text \<open>
  The loop \<open>for (const arg of args)\<close> with its counter \<open>argIndex\<close>; \<open>n\<close> is
  \<open>parsed.args.length\<close>. Both \<open>break\<close>s and the end of the loop return normally.
\<close>

fun validateArgsLoop :: "nat \<Rightarrow> nat \<Rightarrow> CLIArgument list \<Rightarrow> error + unit" where
  "validateArgsLoop argIndex n [] = Inr ()"
| "validateArgsLoop argIndex n (arg # rest) =
     (if argIndex \<ge> n then
        (if arg_required arg then Inl (MissingRequiredArgument (arg_name arg)) else Inr ())
      else if arg_variadic arg then Inr ()
      else validateArgsLoop (argIndex + 1) n rest)"

definition validateArgs :: "ParsedArgs \<Rightarrow> CLIArgument list \<Rightarrow> error + unit" where
  "validateArgs parsed argspecs = validateArgsLoop 0 (length (args parsed)) argspecs"

subsection \<open>validateOptions\<close>

text \<open>
  The prompt collaborator (the \<open>prompts\<close> package) is a parameter: the answer
  \<open>response.value\<close> to the \<open>k\<close>-th question, \<open>None\<close> when the user cancelled
  (\<open>undefined\<close>).
\<close>

datatype prompttype = Confirm | Text

record promptRequest =
  prompt_type :: prompttype
  prompt_message :: string
  prompt_initial :: jsval

type_synonym prompter = "nat \<Rightarrow> promptRequest \<Rightarrow> rawvalue option"

definition promptFor :: "CLIOption \<Rightarrow> promptRequest" where
  "promptFor opt =
     \<lparr>prompt_type = (if opt_type opt = TBoolean then Confirm else Text),
      prompt_message =
        opt_description opt @ '' (--'' @ opt_name opt @
          (case opt_alias opt of
             None \<Rightarrow> []
           | Some a \<Rightarrow> if a = [] then [] else '' / -'' @ a) @ ''):'',
      prompt_initial =
        (case opt_default opt of
           Some d \<Rightarrow> d
         | None \<Rightarrow>
             if opt_type opt = TNumber then VNum (Num 0)
             else if opt_type opt = TBoolean then VBool False
             else VStr [])\<rparr>"

fun promptLoop :: "prompter \<Rightarrow> nat \<Rightarrow> CLIOption list \<Rightarrow> ParsedArgs \<Rightarrow> error + ParsedArgs" where
  "promptLoop prompts k [] parsed = Inr parsed"
| "promptLoop prompts k (opt # rest) parsed =
     (case prompts k (promptFor opt) of
        None \<Rightarrow> Inl (MissingRequiredOption (opt_name opt) (opt_alias opt))
      | Some v \<Rightarrow>
          (case parseOptionValue v opt of
             Inl e \<Rightarrow> Inl e
           | Inr x \<Rightarrow>
               promptLoop prompts (k + 1) rest
                 (parsed\<lparr>options := (options parsed)(opt_name opt \<mapsto> x)\<rparr>)))"

text \<open>\<open>option.required && parsed.options[option.name] === undefined\<close>\<close>

definition isMissing :: "ParsedArgs \<Rightarrow> CLIOption \<Rightarrow> bool" where
  "isMissing parsed opt = (opt_required opt \<and> options parsed (opt_name opt) = None)"

definition validateOptions ::
  "prompter \<Rightarrow> ParsedArgs \<Rightarrow> CLIOption list \<Rightarrow> bool \<Rightarrow> error + ParsedArgs" where
  "validateOptions prompts parsed opts interactive =
     (let missingOptions = filter (isMissing parsed) opts
      in if length missingOptions > 0 \<and> interactive then promptLoop prompts 0 missingOptions parsed
         else if length missingOptions > 0 then
           Inl (MissingRequiredOption (opt_name (missingOptions ! 0)) (opt_alias (missingOptions ! 0)))
         else Inr parsed)"

section \<open>The builder: class \<open>ZoltraCLIBuilder\<close>\<close>

text \<open>
  \<open>interface CLICommand\<close>. The handler \<open>action\<close> is a reference (a number); the field
  \<open>subcommands\<close> is never read by the code and is left out.
\<close>

record CLICommand =
  cmd_name :: string
  cmd_description :: string
  cmd_aliases :: "string list option"
  cmd_options :: "CLIOption list option"
  cmd_arguments :: "CLIArgument list option"
  cmd_action :: nat

record ZoltraCLIBuilder =
  commands :: "CLICommand list"
  globalOptions :: "CLIOption list"
  interactive :: bool

text \<open>
  What \<open>ZoltraCLIBuilder.parse\<close> does when nothing is thrown: it prints the help, prints
  the version, or calls a command's \<open>action\<close> with the positionals and the options.
\<close>

datatype outcome =
    ShowHelp
  | ShowVersion
  | Invoke CLICommand "string list" "string \<rightharpoonup> jsval"

text \<open>The truthiness of \<open>parsed.options.help\<close>; an absent property is \<open>undefined\<close>.\<close>

definition truthy :: "jsval option \<Rightarrow> bool" where
  "truthy v =
     (case v of
        None \<Rightarrow> False
      | Some (VStr s) \<Rightarrow> s \<noteq> []
      | Some (VNum n) \<Rightarrow> n \<noteq> NaN \<and> n \<noteq> Num 0
      | Some (VBool b) \<Rightarrow> b
      | Some (VArr xs) \<Rightarrow> True)"

text \<open>\<open>cmd.name === commandName || cmd.aliases?.includes(commandName)\<close>\<close>

definition commandMatches :: "string \<Rightarrow> CLICommand \<Rightarrow> bool" where
  "commandMatches commandName cmd =
     (cmd_name cmd = commandName \<or>
      (case cmd_aliases cmd of None \<Rightarrow> False | Some as \<Rightarrow> commandName \<in> set as))"

text \<open>\<open>parsed.command[0] || ""\<close>\<close>

definition commandNameOf :: "ParsedArgs \<Rightarrow> string" where
  "commandNameOf parsed = (case command parsed of [] \<Rightarrow> [] | x # xs \<Rightarrow> x)"

text \<open>
  \<open>ZoltraCLIBuilder.parse(argv)\<close>, in the variant with interactive mode (the repository
  holds an older copy without the \<open>validateOptions\<close> step; the two agree up to that step).
  An error caught by its \<open>catch\<close> block (which prints it and exits with status 1) is the
  \<open>Inl\<close> result.
\<close>

definition builderParse ::
  "ZoltraCLIBuilder \<Rightarrow> prompter \<Rightarrow> string list \<Rightarrow> cache \<Rightarrow> (error + outcome) \<times> cache" where
  "builderParse b prompts argv c =
     (case parse argv (globalOptions b) [] c of
        (Inl e, c1) \<Rightarrow> (Inl e, c1)
      | (Inr parsed, c1) \<Rightarrow>
          if truthy (options parsed ''help'') then (Inr ShowHelp, c1)
          else if truthy (options parsed ''version'') then (Inr ShowVersion, c1)
          else
            (let commandName = commandNameOf parsed
             in case find (commandMatches commandName) (commands b) of
                  None \<Rightarrow>
                    if length (commands b) = 1 \<and> cmd_name (commands b ! 0) = []
                    then (Inr (Invoke (commands b ! 0) (args parsed) (options parsed)), c1)
                    else (Inl (UnknownCommand commandName), c1)
                | Some cmd \<Rightarrow>
                    (let copts = globalOptions b @ (case cmd_options cmd of None \<Rightarrow> [] | Some os \<Rightarrow> os);
                         cargs = (case cmd_arguments cmd of None \<Rightarrow> [] | Some as \<Rightarrow> as)
                     in case parse argv copts cargs c1 of
                          (Inl e, c2) \<Rightarrow> (Inl e, c2)
                        | (Inr commandParsed, c2) \<Rightarrow>
                            (case validateArgs commandParsed cargs of
                               Inl e \<Rightarrow> (Inl e, c2)
                             | Inr u \<Rightarrow>
                                 (case validateOptions prompts commandParsed copts (interactive b) of
                                    Inl e \<Rightarrow> (Inl e, c2)
                                  | Inr validatedParsed \<Rightarrow>
                                      (Inr (Invoke cmd (args validatedParsed) (options validatedParsed)),
                                       c2))))))"

section \<open>The parser without the cache\<close>









section \<open>Numeric strings\<close>






section \<open>Example schemas\<close>

definition mkOption :: "string \<Rightarrow> string option \<Rightarrow> optkind \<Rightarrow> CLIOption" where
  "mkOption n a k =
     \<lparr>opt_name = n, opt_alias = a, opt_description = [], opt_type = k, opt_required = False,
      opt_default = None, opt_choices = None\<rparr>"

definition verboseOpt :: CLIOption where
  "verboseOpt = mkOption ''verbose'' (Some ''v'') TBoolean"

definition quietOpt :: CLIOption where
  "quietOpt = mkOption ''quiet'' (Some ''q'') TBoolean"

definition outputOpt :: CLIOption where
  "outputOpt = mkOption ''output'' (Some ''o'') TString"

definition portOpt :: CLIOption where
  "portOpt = mkOption ''port'' None TNumber"

definition helpOpt :: CLIOption where
  "helpOpt = mkOption ''help'' (Some ''h'') TBoolean"

definition versionOpt :: CLIOption where
  "versionOpt = mkOption ''version'' (Some ''V'') TBoolean"

definition mkCommand :: "string \<Rightarrow> nat \<Rightarrow> CLICommand" where
  "mkCommand n h =
     \<lparr>cmd_name = n, cmd_description = [], cmd_aliases = None, cmd_options = None,
      cmd_arguments = None, cmd_action = h\<rparr>"

definition mkArgument :: "string \<Rightarrow> bool \<Rightarrow> CLIArgument" where
  "mkArgument n r =
     \<lparr>arg_name = n, arg_description = [], arg_required = r, arg_variadic = False\<rparr>"

definition configOpt :: CLIOption where
  "configOpt = (mkOption ''config'' None TString)\<lparr>opt_default := Some (VStr ''./config.json'')\<rparr>"

definition nameOpt :: CLIOption where
  "nameOpt = (mkOption ''name'' (Some ''n'') TString)\<lparr>opt_required := True\<rparr>"

definition onlyOpt :: CLIOption where
  "onlyOpt = mkOption ''only'' (Some ''o'') TBoolean"

text \<open>A prompt collaborator whose user cancels every question.\<close>

definition noPrompts :: prompter where
  "noPrompts k req = None"

definition soleDefaultBuilder :: ZoltraCLIBuilder where
  "soleDefaultBuilder = \<lparr>commands = [mkCommand [] 0], globalOptions = [helpOpt, versionOpt], interactive = False\<rparr>"

definition buildTestBuilder :: ZoltraCLIBuilder where
  "buildTestBuilder =
     \<lparr>commands = [mkCommand ''build'' 1, mkCommand ''test'' 2], globalOptions = [helpOpt, versionOpt],
      interactive = False\<rparr>"

definition buildDefaultBuilder :: ZoltraCLIBuilder where
  "buildDefaultBuilder =
     \<lparr>commands = [mkCommand ''build'' 1, mkCommand [] 0], globalOptions = [helpOpt, versionOpt],
      interactive = False\<rparr>"

section \<open>Evaluation\<close>

lemmas char_class_defs =
  isAlpha_def lowerAlpha_def upperAlpha_def isNameChar_def isDigit_def isAlnum_def
  isLineTerminator_def isWhiteSpace_def digitChar_def digitValue_def digitsValue_def

lemmas number_defs =
  parseFloat_def stripSign_def fractionPart_def exponentPart_def scale10_def isNaN_def

lemmas parser_defs =
  parse_def seedDefaults_def parseStep_def isOption_def matchOPTION_REGEX_def afterDashes_def
  matchNameValue_def
  matchSHORT_OPTION_REGEX_def parseOption_def valueOrTrue_def tokenAt_def cachedFind_def
  nameKey_def aliasKey_def findByNameOrAlias_def findByAlias_def parseOptionValue_def
  rawToValue_def parseLoop.simps Let_def

lemmas example_defs =
  mkOption_def verboseOpt_def quietOpt_def outputOpt_def portOpt_def helpOpt_def
  versionOpt_def mkCommand_def mkArgument_def noPrompts_def configOpt_def nameOpt_def
  onlyOpt_def


lemmas builder_defs =
  soleDefaultBuilder_def buildTestBuilder_def buildDefaultBuilder_def builderParse_def
  truthy_def commandMatches_def commandNameOf_def

section \<open>Parsing no tokens\<close>

lemma parseLoop_done: "\<not> i < length tokens \<Longrightarrow> parseLoop tokens opts i parsed c = (Inr parsed, c)"
  by (simp add: parseLoop.simps)

lemma fold_defaults_dom:
  "dom (fold (\<lambda>option os. case opt_default option of None \<Rightarrow> os | Some d \<Rightarrow> os(opt_name option \<mapsto> d)) opts m)
     = dom m \<union> {opt_name opt | opt. opt \<in> set opts \<and> opt_default opt \<noteq> None}"
  by (induction opts arbitrary: m) (auto split: option.splits)

lemma fold_defaults_other:
  "n \<notin> opt_name ` set opts \<Longrightarrow>
   fold (\<lambda>option os. case opt_default option of None \<Rightarrow> os | Some d \<Rightarrow> os(opt_name option \<mapsto> d)) opts m n = m n"
  by (induction opts arbitrary: m) (auto split: option.splits)

lemma fold_defaults_distinct:
  "distinct (map opt_name opts) \<Longrightarrow> opt \<in> set opts \<Longrightarrow>
   fold (\<lambda>option os. case opt_default option of None \<Rightarrow> os | Some d \<Rightarrow> os(opt_name option \<mapsto> d)) opts m (opt_name opt)
     = (case opt_default opt of None \<Rightarrow> m (opt_name opt) | Some d \<Rightarrow> Some d)"
proof (induction opts arbitrary: m)
  case Nil
  then show ?case by simp
next
  case (Cons a opts)
  show ?case
  proof (cases "opt = a")
    case True
    with Cons.prems have "opt_name opt \<notin> opt_name ` set opts" by auto
    then show ?thesis using True by (simp add: fold_defaults_other split: option.splits)
  next
    case False
    with Cons.prems have in_rest: "opt \<in> set opts" and "distinct (map opt_name opts)" by auto
    from in_rest have "opt_name opt \<in> opt_name ` set opts" by simp
    with Cons.prems have "opt_name opt \<noteq> opt_name a" by auto
    with in_rest \<open>distinct (map opt_name opts)\<close>
    have "opt \<in> set opts" "distinct (map opt_name opts)" "opt_name opt \<noteq> opt_name a" by auto
    then show ?thesis using Cons.IH by (simp split: option.splits)
  qed
qed

text \<open>
  Claim C9. Parsing an argument vector that holds no token after the two skipped entries
  returns normally and leaves the cache as it was; the result has an empty command path and
  an empty positional list, and its options map is defined exactly at the names of the
  options that declare a default. When the option names are distinct, every option of the
  schema is bound to its own default (an option without one stays absent).
\<close>

theorem parse_empty_tokens:
  assumes "length argv \<le> 2"
  shows "\<exists>r. parse argv opts argspecs c = (Inr r, c) \<and> command r = [] \<and> args r = [] \<and>
             dom (options r) = {opt_name opt | opt. opt \<in> set opts \<and> opt_default opt \<noteq> None} \<and>
             (distinct (map opt_name opts) \<longrightarrow> (\<forall>opt \<in> set opts. options r (opt_name opt) = opt_default opt))"
proof -
  let ?r = "\<lparr>command = [], options = seedDefaults opts, args = []\<rparr>"
  from assms have "parse argv opts argspecs c = (Inr ?r, c)"
    by (simp add: parse_def parseLoop_done)
  moreover have "dom (options ?r) = {opt_name opt | opt. opt \<in> set opts \<and> opt_default opt \<noteq> None}"
    by (simp add: seedDefaults_def fold_defaults_dom)
  moreover have "distinct (map opt_name opts) \<longrightarrow> (\<forall>opt \<in> set opts. options ?r (opt_name opt) = opt_default opt)"
    by (auto simp: seedDefaults_def fold_defaults_distinct split: option.splits)
  ultimately show ?thesis by simp
qed

theorem parse_empty_tokens_witness:
  "parse [''node'', ''cli''] [verboseOpt, configOpt] [] Map.empty =
     (Inr \<lparr>command = [], options = [''config'' \<mapsto> VStr ''./config.json''], args = []\<rparr>, Map.empty)"
  using parse_empty_tokens [of "[''node'', ''cli'']" "[verboseOpt, configOpt]" "[]" Map.empty]
  by (simp add: parser_defs example_defs)

subsection \<open>Positional arguments\<close>

lemma validateArgsLoop_gap:
  "list_all (\<lambda>a. \<not> arg_variadic a) argspecs \<Longrightarrow> k \<le> n \<Longrightarrow> n - k < length argspecs \<Longrightarrow>
   validateArgsLoop k n argspecs =
     (if arg_required (argspecs ! (n - k)) then Inl (MissingRequiredArgument (arg_name (argspecs ! (n - k))))
      else Inr ())"
proof (induction argspecs arbitrary: k)
  case Nil
  then show ?case by simp
next
  case (Cons a argspecs)
  show ?case
  proof (cases "k = n")
    case True
    then show ?thesis by simp
  next
    case False
    with Cons.prems have lt: "k < n" by simp
    then have "n - k = Suc (n - Suc k)" by simp
    moreover from Cons.prems lt have "n - Suc k < length argspecs" by simp
    ultimately show ?thesis using Cons.IH [of "Suc k"] Cons.prems lt by simp
  qed
qed

text \<open>
  Claim C4, as amended. For an argument schema with no variadic spec and fewer positionals
  than specs, \<open>validateArgs\<close> is decided by the first spec that has no positional, the one
  at the index equal to the number of positionals: when that spec is required, the call
  fails with the missing-argument error naming it, however many specs follow; when it is
  not required, the call returns without error, whatever the later specs require.
\<close>

theorem validateArgs_first_gap:
  assumes "list_all (\<lambda>a. \<not> arg_variadic a) argspecs"
    and "length (args parsed) < length argspecs"
  shows "validateArgs parsed argspecs =
           (if arg_required (argspecs ! length (args parsed))
            then Inl (MissingRequiredArgument (arg_name (argspecs ! length (args parsed))))
            else Inr ())"
  using validateArgsLoop_gap [OF assms(1), of 0 "length (args parsed)"] assms(2)
  by (simp add: validateArgs_def)

text \<open>
  Claim C4 as stated fails: with no positional, an optional spec \<open>a\<close> followed by a
  required spec \<open>b\<close> passes validation, although the required \<open>b\<close> has no positional.
\<close>

theorem validateArgs_optional_gap_counterexample:
  "list_all (\<lambda>a. \<not> arg_variadic a) [mkArgument ''a'' False, mkArgument ''b'' True] \<and>
   arg_required ([mkArgument ''a'' False, mkArgument ''b'' True] ! 1) \<and>
   length (args \<lparr>command = [], options = Map.empty, args = []\<rparr>) \<le> 1 \<and>
   validateArgs \<lparr>command = [], options = Map.empty, args = []\<rparr>
       [mkArgument ''a'' False, mkArgument ''b'' True] = Inr ()"
  by (simp add: validateArgs_def mkArgument_def)

theorem validateArgs_first_gap_witness:
  "validateArgs \<lparr>command = [''copy''], options = Map.empty, args = [''x'']\<rparr>
       [mkArgument ''src'' True, mkArgument ''dst'' True, mkArgument ''mode'' False]
     = Inl (MissingRequiredArgument ''dst'') \<and>
   validateArgs \<lparr>command = [''copy''], options = Map.empty, args = [''x'', ''y'']\<rparr>
       [mkArgument ''src'' True, mkArgument ''dst'' True, mkArgument ''mode'' False]
     = Inr ()"
  using validateArgs_first_gap [of "[mkArgument ''src'' True, mkArgument ''dst'' True, mkArgument ''mode'' False]"
          "\<lparr>command = [''copy''], options = Map.empty, args = [''x'']\<rparr>"]
        validateArgs_first_gap [of "[mkArgument ''src'' True, mkArgument ''dst'' True, mkArgument ''mode'' False]"
          "\<lparr>command = [''copy''], options = Map.empty, args = [''x'', ''y'']\<rparr>"]
  by (simp add: mkArgument_def)

subsection \<open>Required options\<close>




section \<open>Flag tokens\<close>

lemma matchNameValue_name:
  "matchNameValue r = Some (name, v) \<Longrightarrow> name = takeWhile isNameChar r \<and> name \<noteq> []"
  by (cases r) (auto simp: matchNameValue_def Let_def isNameChar_def split: if_splits list.splits)

lemma matchOPTION_REGEX_name:
  "matchOPTION_REGEX token = Some (name, v) \<Longrightarrow> name \<noteq> [] \<and> list_all isNameChar name"
proof -
  assume "matchOPTION_REGEX token = Some (name, v)"
  then obtain r where "matchNameValue r = Some (name, v)"
    by (auto simp: matchOPTION_REGEX_def split: option.splits)
  from matchNameValue_name [OF this] have "name = takeWhile isNameChar r" "name \<noteq> []" by blast+
  moreover have "list_all isNameChar (takeWhile isNameChar r)"
    by (simp add: list_all_iff) (meson set_takeWhileD)
  ultimately show ?thesis by simp
qed

lemma parseOption_of_option:
  assumes "isOption token"
  shows "\<exists>name v. parseOption token tokens i = Inr (name, v) \<and> name \<noteq> [] \<and> list_all isNameChar name"
proof -
  from assms obtain name v where m: "matchOPTION_REGEX token = Some (name, v)"
    by (auto simp: isOption_def)
  from matchOPTION_REGEX_name [OF m] have "name \<noteq> []" "list_all isNameChar name" by simp_all
  with m show ?thesis by (cases v) (simp_all add: parseOption_def)
qed
lemma parseStep_no_format_error:
  "fst (parseStep tokens opts i parsed c) \<noteq> Inl (InvalidOptionFormat t)"
proof (cases "tokens ! i \<noteq> [] \<and> isOption (tokens ! i)")
  case True
  then obtain name v where "parseOption (tokens ! i) tokens i = Inr (name, v)"
    using parseOption_of_option by blast
  with True show ?thesis
    by (auto simp: parseStep_def Let_def parseOptionValue_def split: prod.splits option.splits sum.splits rawvalue.splits optkind.splits if_splits)
next
  case False
  then show ?thesis
    by (auto simp: parseStep_def Let_def split: prod.splits)
qed

lemma parseLoop_no_format_error:
  "fst (parseLoop tokens opts i parsed c) \<noteq> Inl (InvalidOptionFormat t)"
proof (induction tokens opts i parsed c rule: parseLoop.induct)
  case (1 tokens opts i parsed c)
  show ?case
  proof (cases "i < length tokens")
    case False
    then show ?thesis by (simp add: parseLoop.simps)
  next
    case True
    obtain r c' where st: "parseStep tokens opts i parsed c = (r, c')" by (cases "parseStep tokens opts i parsed c")
    show ?thesis
    proof (cases r)
      case (Inl e)
      with parseStep_no_format_error [where tokens=tokens and opts=opts and i=i and parsed=parsed and c=c and t=t] st have "e \<noteq> InvalidOptionFormat t" by simp
      with True st Inl show ?thesis by (simp add: parseLoop.simps [of tokens opts i])
    next
      case (Inr ip)
      obtain i' p' where "ip = (i', p')" by (cases ip)
      with True st Inr "1.IH" show ?thesis
        by (auto simp: parseLoop.simps [of tokens opts i])
    qed
  qed
qed

lemma parse_no_format_error:
  "fst (parse argv opts argspecs c) \<noteq> Inl (InvalidOptionFormat t)"
  by (simp add: parse_def parseLoop_no_format_error)

text \<open>
  Claim C2 (the code departs from it). The token \<open>-vq\<close> matches \<open>OPTION_REGEX\<close> with the
  name \<open>vq\<close>, so \<open>parse\<close> takes it as one flag named \<open>vq\<close>, finds no such option and
  binds nothing: neither \<open>verbose\<close> nor \<open>quiet\<close> is set, for \<open>-vq\<close> and for \<open>-qv\<close>. The
  cluster branch is reached only by a dash token that the expression rejects.
\<close>

theorem cluster_vq_taken_as_one_flag:
  "matchOPTION_REGEX ''-vq'' = Some (''vq'', None) \<and>
   fst (parse [''node'', ''cli'', ''-vq''] [verboseOpt, quietOpt] [] Map.empty)
     = Inr \<lparr>command = [], options = Map.empty, args = []\<rparr> \<and>
   fst (parse [''node'', ''cli'', ''-qv''] [verboseOpt, quietOpt] [] Map.empty)
     = Inr \<lparr>command = [], options = Map.empty, args = []\<rparr>"
  by (simp add: parser_defs char_class_defs example_defs)

text \<open>
  Claim C1 (the code departs from it). For the string option \<open>output\<close>, the token pair
  \<open>--output file.txt\<close> and the single token \<open>--output=file.txt\<close> give the same options
  map, but the pair also records \<open>file.txt\<close> as the command: after the flag has taken the
  next token as its value the cursor moves one token only, and the value is read again.
\<close>

theorem value_token_pair_differs_from_equals_form:
  "fst (parse [''node'', ''cli'', ''--output'', ''file.txt''] [outputOpt] [] Map.empty)
     = Inr \<lparr>command = [''file.txt''], options = [''output'' \<mapsto> VStr ''file.txt''], args = []\<rparr> \<and>
   fst (parse [''node'', ''cli'', ''--output=file.txt''] [outputOpt] [] Map.empty)
     = Inr \<lparr>command = [], options = [''output'' \<mapsto> VStr ''file.txt''], args = []\<rparr>"
  by (simp add: parser_defs char_class_defs example_defs)

text \<open>
  Claim C6 (the code departs from it). The token \<open>--\<close> has no identifier after its dashes
  and \<open>parseOption\<close> would reject it with the invalid-format error; but \<open>parse\<close> calls
  \<open>parseOption\<close> only for a token that \<open>OPTION_REGEX\<close> matches, so \<open>--\<close> goes to the
  cluster branch and parsing returns normally.
\<close>

theorem malformed_flag_token_accepted:
  "\<not> isOption ''--'' \<and>
   parseOption ''--'' [''--''] 0 = Inl (InvalidOptionFormat ''--'') \<and>
   fst (parse [''node'', ''cli'', ''--''] [verboseOpt] [] Map.empty)
     = Inr \<lparr>command = [], options = Map.empty, args = []\<rparr>"
  by (simp add: parser_defs char_class_defs example_defs)

section \<open>Command dispatch\<close>

text \<open>
  Claim C3 as stated fails: with the commands \<open>build\<close> and the default command (empty
  name) registered, exactly one command has an empty name and the token \<open>frobnicate\<close>
  matches no command, yet the default command is not invoked: dispatch fails with the
  unknown-command error.
\<close>

theorem default_beside_named_command_counterexample:
  "length (filter (\<lambda>cmd. cmd_name cmd = []) (commands buildDefaultBuilder)) = 1 \<and>
   list_all (\<lambda>cmd. \<not> commandMatches ''frobnicate'' cmd) (commands buildDefaultBuilder) \<and>
   fst (builderParse buildDefaultBuilder noPrompts [''node'', ''cli'', ''frobnicate''] Map.empty)
     = Inl (UnknownCommand ''frobnicate'')"
  by (simp add: builder_defs parser_defs char_class_defs example_defs)

text \<open>
  Claim C3, as amended. When the parse against the global options succeeds, neither
  \<open>help\<close> nor \<open>version\<close> is set and the tentative command name matches no registered
  command: if the list of registered commands has exactly one element and that command has
  an empty name, this default command is invoked with the positionals and the options of
  that parse, and the cache it left; otherwise dispatch fails with the unknown-command error
  naming the tentative name. In the first case the tentative name is a token that was given
  (an empty tentative name would have matched the default command); it stays in the parsed
  command path and is not passed to the handler.
\<close>

theorem dispatch_unmatched_command:
  assumes "parse argv (globalOptions b) [] c = (Inr parsed, c1)"
    and "\<not> truthy (options parsed ''help'')"
    and "\<not> truthy (options parsed ''version'')"
    and "list_all (\<lambda>cmd. \<not> commandMatches (commandNameOf parsed) cmd) (commands b)"
  shows "builderParse b prompts argv c =
           (if length (commands b) = 1 \<and> cmd_name (commands b ! 0) = []
            then Inr (Invoke (commands b ! 0) (args parsed) (options parsed))
            else Inl (UnknownCommand (commandNameOf parsed)), c1) \<and>
         (length (commands b) = 1 \<and> cmd_name (commands b ! 0) = [] \<longrightarrow> commandNameOf parsed \<noteq> [])"
proof (intro conjI impI)
  from assms(4) have none: "find (commandMatches (commandNameOf parsed)) (commands b) = None"
    by (simp add: find_None_iff list_all_iff)
  with assms(1-3) show "builderParse b prompts argv c =
           (if length (commands b) = 1 \<and> cmd_name (commands b ! 0) = []
            then Inr (Invoke (commands b ! 0) (args parsed) (options parsed))
            else Inl (UnknownCommand (commandNameOf parsed)), c1)"
    by (simp add: builderParse_def)
next
  assume sole: "length (commands b) = 1 \<and> cmd_name (commands b ! 0) = []"
  then obtain d where d: "commands b = [d]" "cmd_name d = []"
    by (cases "commands b") auto
  with assms(4) have "\<not> commandMatches (commandNameOf parsed) d" by simp
  with d show "commandNameOf parsed \<noteq> []" by (auto simp: commandMatches_def)
qed

theorem dispatch_unmatched_command_witness:
  "builderParse soleDefaultBuilder noPrompts [''node'', ''cli'', ''frobnicate'', ''x''] Map.empty
     = (Inr (Invoke (mkCommand [] 0) [''x''] Map.empty), Map.empty) \<and>
   builderParse buildTestBuilder noPrompts [''node'', ''cli'', ''frobnicate''] Map.empty
     = (Inl (UnknownCommand ''frobnicate''), Map.empty)"
proof -
  let ?p = "\<lparr>command = [''frobnicate''], options = Map.empty, args = [''x'']\<rparr>"
  let ?q = "\<lparr>command = [''frobnicate''], options = Map.empty, args = []\<rparr>"
  have p: "parse [''node'', ''cli'', ''frobnicate'', ''x''] (globalOptions soleDefaultBuilder) [] Map.empty = (Inr ?p, Map.empty)"
    by (simp add: builder_defs parser_defs char_class_defs example_defs)
  have q: "parse [''node'', ''cli'', ''frobnicate''] (globalOptions buildTestBuilder) [] Map.empty = (Inr ?q, Map.empty)"
    by (simp add: builder_defs parser_defs char_class_defs example_defs)
  have "builderParse soleDefaultBuilder noPrompts [''node'', ''cli'', ''frobnicate'', ''x''] Map.empty
     = (Inr (Invoke (mkCommand [] 0) [''x''] Map.empty), Map.empty)"
    using dispatch_unmatched_command [OF p, of noPrompts]
    by (simp add: builder_defs example_defs)
  moreover have "builderParse buildTestBuilder noPrompts [''node'', ''cli'', ''frobnicate''] Map.empty
     = (Inl (UnknownCommand ''frobnicate''), Map.empty)"
    using dispatch_unmatched_command [OF q, of noPrompts]
    by (simp add: builder_defs example_defs)
  ultimately show ?thesis by simp
qed

section \<open>Number coercion\<close>




















section \<open>The value token of a flag\<close>

lemma matchOPTION_REGEX_nonempty: "matchOPTION_REGEX token = Some m \<Longrightarrow> token \<noteq> []"
  by (auto simp: matchOPTION_REGEX_def afterDashes_def)

lemma parseOption_takes_next:
  assumes "i + 1 < length tokens"
    and "matchOPTION_REGEX (tokens ! i) = Some (name, None)"
    and "tokens ! (i + 1) \<noteq> []" and "\<not> isOption (tokens ! (i + 1))"
  shows "parseOption (tokens ! i) tokens i = Inr (name, RStr (tokens ! (i + 1)))"
proof -
  from matchOPTION_REGEX_name [OF assms(2)] have "name \<noteq> []" by simp
  with assms show ?thesis
    by (simp add: parseOption_def valueOrTrue_def tokenAt_def)
qed

lemma parseStep_flag:
  assumes "isOption (tokens ! i)" and "parseStep tokens opts i parsed c = (Inr (i', p'), c')"
  shows "i' = i + 1 \<and> command p' = command parsed \<and> args p' = args parsed"
proof -
  from assms(1) have ne: "tokens ! i \<noteq> []"
    using matchOPTION_REGEX_nonempty by (auto simp: isOption_def)
  with assms show ?thesis
    by (auto simp: parseStep_def Let_def split: sum.splits prod.splits option.splits)
qed

lemma parseStep_plain:
  assumes "v = tokens ! j" and "v \<noteq> []" and "\<not> isOption v" and "hd v \<noteq> CHR ''-''"
  shows "parseStep tokens opts j parsed c =
           (Inr (j + 1,
                 if command parsed = [] \<and> args parsed = []
                 then parsed\<lparr>command := command parsed @ [v]\<rparr>
                 else parsed\<lparr>args := args parsed @ [v]\<rparr>), c)"
  using assms by (simp add: parseStep_def Let_def)

lemma parseStep_grows:
  "parseStep tokens opts i parsed c = (Inr (i', p'), c') \<Longrightarrow>
   (command parsed \<noteq> [] \<longrightarrow> command p' = command parsed) \<and> (\<exists>ys. args p' = args parsed @ ys)"
  by (auto simp: parseStep_def Let_def split: if_splits sum.splits prod.splits option.splits)

lemma parseLoop_grows:
  "parseLoop tokens opts i parsed c = (Inr r, c') \<Longrightarrow>
   (command parsed \<noteq> [] \<longrightarrow> command r = command parsed) \<and> (\<exists>ys. args r = args parsed @ ys)"
proof (induction tokens opts i parsed c rule: parseLoop.induct)
  case (1 tokens opts i parsed c)
  show ?case
  proof (cases "i < length tokens")
    case False
    with "1.prems" show ?thesis by (simp add: parseLoop.simps)
  next
    case True
    obtain x c1 where st: "parseStep tokens opts i parsed c = (x, c1)"
      by (cases "parseStep tokens opts i parsed c")
    show ?thesis
    proof (cases x)
      case (Inl e)
      with True st "1.prems" show ?thesis by (simp add: parseLoop.simps [of tokens opts i])
    next
      case (Inr ip)
      obtain i1 p1 where ip: "ip = (i1, p1)" by (cases ip)
      from True st Inr ip "1.prems" have loop: "parseLoop tokens opts i1 p1 c1 = (Inr r, c')"
        by (simp add: parseLoop.simps [of tokens opts i])
      from "1.IH" [OF True st [symmetric] Inr ip [symmetric] loop]
      have ih: "(command p1 \<noteq> [] \<longrightarrow> command r = command p1) \<and> (\<exists>ys. args r = args p1 @ ys)" .
      from st Inr ip have "(command parsed \<noteq> [] \<longrightarrow> command p1 = command parsed) \<and> (\<exists>ys. args p1 = args parsed @ ys)"
        using parseStep_grows [of tokens opts i parsed c i1 p1 c1] by simp
      with ih show ?thesis by auto
    qed
  qed
qed

text \<open>
  Claim C10 as stated fails: the token \<open>-5\<close> is not option-shaped and the flag \<open>--port\<close>
  takes it as its value, but on the next iteration it is a dash token for the cluster
  branch, not a plain token: it is recorded neither as the command nor as a positional.
\<close>

theorem dash_value_token_not_recorded_counterexample:
  "matchOPTION_REGEX ''--port'' = Some (''port'', None) \<and> \<not> isOption ''-5'' \<and>
   parseOption ''--port'' [''--port'', ''-5''] 0 = Inr (''port'', RStr ''-5'') \<and>
   fst (parse [''node'', ''cli'', ''--port'', ''-5''] [portOpt] [] Map.empty)
     = Inr \<lparr>command = [], options = [''port'' \<mapsto> VNum (Num (- 5))], args = []\<rparr>"
  by (simp add: parser_defs char_class_defs example_defs number_defs)

text \<open>
  Claim C10, as amended. Let the cursor stand on a token that matches the single-flag
  pattern without an \<open>=value\<close> suffix, followed by a non-empty token that is not
  option-shaped and does not begin with a dash, and let the parse from there return a
  result. Then the flag takes the following token as its value, the iteration moves the
  cursor by one position only, and the value token is read again as a plain token: the
  result's command is that token when neither a command nor a positional had been recorded,
  and otherwise the token is the positional recorded next.
\<close>

theorem flag_value_token_read_again:
  assumes "i + 1 < length tokens"
    and "matchOPTION_REGEX (tokens ! i) = Some (name, None)"
    and "tokens ! (i + 1) \<noteq> []" and "\<not> isOption (tokens ! (i + 1))"
    and "hd (tokens ! (i + 1)) \<noteq> CHR ''-''"
    and "parseLoop tokens opts i parsed c = (Inr r, c')"
  shows "parseOption (tokens ! i) tokens i = Inr (name, RStr (tokens ! (i + 1))) \<and>
         (\<exists>p1 c1. parseStep tokens opts i parsed c = (Inr (i + 1, p1), c1)) \<and>
         (if command parsed = [] \<and> args parsed = [] then command r = [tokens ! (i + 1)]
          else \<exists>rest. args r = args parsed @ tokens ! (i + 1) # rest)"
proof -
  let ?v = "tokens ! (i + 1)"
  have isopt: "isOption (tokens ! i)" using assms(2) by (simp add: isOption_def)
  have lt: "i < length tokens" using assms(1) by simp
  obtain x c1 where st: "parseStep tokens opts i parsed c = (x, c1)"
    by (cases "parseStep tokens opts i parsed c")
  from lt st assms(6) obtain i1 p1 where x: "x = Inr (i1, p1)"
    and loop1: "parseLoop tokens opts i1 p1 c1 = (Inr r, c')"
    by (cases x) (auto simp: parseLoop.simps [of tokens opts i])
  from parseStep_flag [OF isopt] st x
  have i1: "i1 = i + 1" and same: "command p1 = command parsed" "args p1 = args parsed" by simp_all
  let ?p2 = "if command p1 = [] \<and> args p1 = [] then p1\<lparr>command := command p1 @ [?v]\<rparr>
             else p1\<lparr>args := args p1 @ [?v]\<rparr>"
  have st2: "parseStep tokens opts (i + 1) p1 c1 = (Inr (i + 1 + 1, ?p2), c1)"
    using parseStep_plain [OF refl assms(3) assms(4) assms(5)] .
  from loop1 i1 assms(1) st2 have loop2: "parseLoop tokens opts (i + 1 + 1) ?p2 c1 = (Inr r, c')"
    by (simp add: parseLoop.simps [of tokens opts "Suc i"])
  from parseLoop_grows [OF loop2]
  have grow: "(command ?p2 \<noteq> [] \<longrightarrow> command r = command ?p2) \<and> (\<exists>ys. args r = args ?p2 @ ys)" .
  have "if command parsed = [] \<and> args parsed = [] then command r = [?v]
        else \<exists>rest. args r = args parsed @ ?v # rest"
  proof (cases "command parsed = [] \<and> args parsed = []")
    case True
    with same grow show ?thesis by simp
  next
    case False
    with same grow show ?thesis by auto
  qed
  moreover have "\<exists>p1 c1. parseStep tokens opts i parsed c = (Inr (i + 1, p1), c1)"
    using st x i1 by simp
  moreover note parseOption_takes_next [OF assms(1-4)]
  ultimately show ?thesis by simp
qed

theorem flag_value_token_read_again_witness:
  "fst (parseLoop [''--output'', ''file.txt''] [outputOpt] 0
          \<lparr>command = [], options = Map.empty, args = []\<rparr> Map.empty)
     = Inr \<lparr>command = [''file.txt''], options = [''output'' \<mapsto> VStr ''file.txt''], args = []\<rparr> \<and>
   fst (parseLoop [''build'', ''-o'', ''out2''] [outputOpt] 1
          \<lparr>command = [''build''], options = Map.empty, args = []\<rparr> Map.empty)
     = Inr \<lparr>command = [''build''], options = [''output'' \<mapsto> VStr ''out2''], args = [''out2'']\<rparr>"
proof -
  let ?t1 = "[''--output'', ''file.txt'']" and ?t2 = "[''build'', ''-o'', ''out2'']"
  let ?p1 = "\<lparr>command = [], options = Map.empty, args = []\<rparr>"
  let ?p2 = "\<lparr>command = [''build''], options = Map.empty, args = []\<rparr>"
  let ?r1 = "\<lparr>command = [''file.txt''], options = [''output'' \<mapsto> VStr ''file.txt''], args = []\<rparr>"
  let ?r2 = "\<lparr>command = [''build''], options = [''output'' \<mapsto> VStr ''out2''], args = [''out2'']\<rparr>"
  have e1: "parseLoop ?t1 [outputOpt] 0 ?p1 Map.empty = (Inr ?r1, [''output:1'' \<mapsto> Some outputOpt])"
    by (simp add: parser_defs char_class_defs example_defs)
  have e2: "parseLoop ?t2 [outputOpt] 1 ?p2 Map.empty = (Inr ?r2, [''o:1'' \<mapsto> Some outputOpt])"
    by (simp add: parser_defs char_class_defs example_defs)
  have m1: "matchOPTION_REGEX (?t1 ! 0) = Some (''output'', None)"
    by (simp add: parser_defs char_class_defs)
  have m2: "matchOPTION_REGEX (?t2 ! 1) = Some (''o'', None)"
    by (simp add: parser_defs char_class_defs)
  have n1: "\<not> isOption (?t1 ! (0 + 1))" by (simp add: parser_defs char_class_defs)
  have n2: "\<not> isOption (?t2 ! (1 + 1))" by (simp add: parser_defs char_class_defs)
  have "command ?r1 = [?t1 ! (0 + 1)]"
    using flag_value_token_read_again [of 0 ?t1 "''output''" "[outputOpt]" ?p1 Map.empty ?r1, OF _ m1 _ n1 _ e1]
    by simp
  moreover have "\<exists>rest. args ?r2 = args ?p2 @ ?t2 ! (1 + 1) # rest"
    using flag_value_token_read_again [of 1 ?t2 "''o''" "[outputOpt]" ?p2 Map.empty ?r2, OF _ m2 _ n2 _ e2]
    by simp
  ultimately show ?thesis using e1 e2 by simp
qed

section \<open>The option cache\<close>
















end
